theory Spec2Isabelle
  imports Complex_Main "HOL-Library.Word"
begin

section \<open>Progressive page rendering: the embedder test harness\<close>

text \<open>
  The development embeds \<^verbatim>\<open>core/fpdfapi/render/fpdf_progressive_render_embeddertest.cpp\<close>:
  the class \<^verbatim>\<open>FPDFProgressiveRenderEmbedderTest\<close>, its helper \<^verbatim>\<open>FakePause\<close> and the
  test bodies that drive a progressive render. The harness is a client of the public
  rendering interface (\<^verbatim>\<open>FPDFBitmap_Create\<close>, \<^verbatim>\<open>FPDF_RenderPageBitmap_Start\<close>,
  \<^verbatim>\<open>FPDF_RenderPage_Continue\<close>, ...). Those functions are not part of the file; each
  is modelled from the design document and marked as such.
\<close>

subsection \<open>Colours and status codes\<close>

type_synonym FX_ARGB = "32 word"
type_synonym FPDF_DWORD = "32 word"

definition kBlack :: FX_ARGB where "kBlack = 0xFF000000"
definition kBlue :: FX_ARGB where "kBlue = 0xFF0000FF"
definition kRed :: FX_ARGB where "kRed = 0xFFFF0000"
definition kWhite :: FX_ARGB where "kWhite = 0xFFFFFFFF"

text \<open>The four role-keyed override colours, in the order the tests initialise them.\<close>

record FPDF_COLORSCHEME =
  path_fill_color :: FPDF_DWORD
  path_stroke_color :: FPDF_DWORD
  text_fill_color :: FPDF_DWORD
  text_stroke_color :: FPDF_DWORD

text \<open>
  Modelled from the spec: the outcomes of a render call. The design document names the
  two statuses \<open>Done\<close> and \<open>ToBeContinued\<close> and the error taxonomy
  \<open>InvalidArgument\<close>, \<open>InvalidState\<close>, \<open>BackendFailure\<close>.
\<close>

datatype Status = StatusDone | ToBeContinued

datatype error = InvalidArgument | InvalidState | BackendFailure

text \<open>
  Modelled from the spec: the integer codes the interface returns. The harness only ever
  compares a code with \<^verbatim>\<open>FPDF_RENDER_TOBECONTINUED\<close>; the values are those of the
  public header \<^verbatim>\<open>fpdf_progressive.h\<close>, which is not part of the file.
\<close>

definition FPDF_RENDER_TOBECONTINUED :: int where "FPDF_RENDER_TOBECONTINUED = 1"
definition FPDF_RENDER_DONE :: int where "FPDF_RENDER_DONE = 2"
definition FPDF_RENDER_FAILED :: int where "FPDF_RENDER_FAILED = 3"

fun status_code :: "error + Status \<Rightarrow> int" where
  "status_code (Inr ToBeContinued) = FPDF_RENDER_TOBECONTINUED"
| "status_code (Inr StatusDone) = FPDF_RENDER_DONE"
| "status_code (Inl e) = FPDF_RENDER_FAILED"

subsection \<open>The pause controller of the tests\<close>

text \<open>
  \<^verbatim>\<open>FakePause\<close> answers every query with the constant it was built with. The
  constructor stores version 1 and installs \<^verbatim>\<open>Pause_NeedToPauseNow\<close> as the callback.
\<close>

record FakePause =
  version :: int
  should_pause :: bool

definition FakePause_new :: "bool \<Rightarrow> FakePause" where
  "FakePause_new b = \<lparr>version = 1, should_pause = b\<rparr>"

definition Pause_NeedToPauseNow :: "FakePause \<Rightarrow> bool" where
  "Pause_NeedToPauseNow param = should_pause param"

subsection \<open>Target bitmaps\<close>

text \<open>
  A bitmap is its width, its height, whether it carries an alpha channel, and its pixels
  in row-major order. The field \<open>history\<close> is bookkeeping of the model only: the
  operations applied to the buffer so far, oldest first. It lets the ordering properties
  be stated; no operation reads it.
\<close>

datatype BufferEvent = Filled FPDF_DWORD | Painted nat | Overlaid

record FPDF_BITMAP =
  bmp_width :: int
  bmp_height :: int
  bmp_alpha :: bool
  pixels :: "FX_ARGB list"
  history :: "BufferEvent list"

text \<open>
  Modelled from the spec: \<^verbatim>\<open>FPDFBitmap_Create(width, height, alpha)\<close> allocates the
  render target, "a pixel buffer with width, height, and an alpha-capability flag".
\<close>

definition FPDFBitmap_Create :: "int \<Rightarrow> int \<Rightarrow> int \<Rightarrow> FPDF_BITMAP" where
  "FPDFBitmap_Create width height alpha =
     \<lparr>bmp_width = width, bmp_height = height, bmp_alpha = (alpha \<noteq> 0),
      pixels = replicate (nat width * nat height) 0, history = []\<rparr>"

text \<open>
  Modelled from the spec: \<^verbatim>\<open>FPDFBitmap_FillRect(bitmap, left_x, top_y, width, height, color)\<close>,
  the backend primitive "fill region". Pixel \<open>i\<close> lies at column \<open>i mod w\<close> of row
  \<open>i div w\<close>; the pixels inside the rectangle take the colour, the others keep theirs.
\<close>

definition in_rect :: "int \<Rightarrow> int \<Rightarrow> int \<Rightarrow> int \<Rightarrow> int \<Rightarrow> nat \<Rightarrow> bool" where
  "in_rect w left_x top_y width height i =
     (left_x \<le> int i mod w \<and> int i mod w < left_x + width \<and>
      top_y \<le> int i div w \<and> int i div w < top_y + height)"

definition FPDFBitmap_FillRect ::
  "FPDF_BITMAP \<Rightarrow> int \<Rightarrow> int \<Rightarrow> int \<Rightarrow> int \<Rightarrow> FPDF_DWORD \<Rightarrow> FPDF_BITMAP" where
  "FPDFBitmap_FillRect bitmap left_x top_y width height color =
     bitmap\<lparr>pixels :=
               map (\<lambda>i. if in_rect (bmp_width bitmap) left_x top_y width height i
                         then color else pixels bitmap ! i)
                   [0..<length (pixels bitmap)],
            history := history bitmap @ [Filled color]\<rparr>"

subsection \<open>Pages, page objects and the form layer\<close>

text \<open>
  Modelled from the spec: the render configuration of a session, "rotation, device-space
  rectangle, a set of independent boolean flags and an optional ColorScheme". The flags
  stay the integer the harness passes.
\<close>

record RenderConfig =
  cfg_rect :: "int \<times> int \<times> int \<times> int"
  cfg_rotate :: int
  cfg_flags :: int
  cfg_color_scheme :: "FPDF_COLORSCHEME option"

text \<open>
  Modelled from the spec: a page object is an entry of the externally owned, already
  parsed object list. Path construction, colour policy and compositing belong to the
  raster backend, an external collaborator; a page object is therefore represented by
  what painting it under a configuration does to the pixels of a target of the given
  width and height.
\<close>

type_synonym PageObject = "RenderConfig \<Rightarrow> int \<Rightarrow> int \<Rightarrow> FX_ARGB list \<Rightarrow> FX_ARGB list"

text \<open>
  A loaded page, as the harness sees it through \<^verbatim>\<open>FPDF_GetPageWidth\<close>,
  \<^verbatim>\<open>FPDF_GetPageHeight\<close> and \<^verbatim>\<open>FPDFPage_HasTransparency\<close>, with its object list in
  document order. Widths and heights are doubles in the source and reals here.
\<close>

record FPDF_PAGE =
  page_width :: real
  page_height :: real
  has_transparency :: bool
  page_objects :: "PageObject list"

definition FPDF_GetPageWidth :: "FPDF_PAGE \<Rightarrow> real" where
  "FPDF_GetPageWidth page = page_width page"

definition FPDF_GetPageHeight :: "FPDF_PAGE \<Rightarrow> real" where
  "FPDF_GetPageHeight page = page_height page"

definition FPDFPage_HasTransparency :: "FPDF_PAGE \<Rightarrow> bool" where
  "FPDFPage_HasTransparency page = has_transparency page"

text \<open>
  \<^verbatim>\<open>static_cast<int>\<close> of a double drops the fraction (rounds towards zero) when the
  result fits an \<^verbatim>\<open>int\<close>, that is when it lies between \<open>INT_MIN\<close> and \<open>INT_MAX\<close>.
  Outside that range the conversion is undefined in C++; the build's conversion
  instruction then yields \<open>INT_MIN\<close>, and so does the model. Nothing below relies on the
  value outside the range: the statement about the extent of the target carries the
  range as a hypothesis.
\<close>

definition INT_MIN :: int where "INT_MIN = - 2147483648"
definition INT_MAX :: int where "INT_MAX = 2147483647"

definition truncate_real :: "real \<Rightarrow> int" where
  "truncate_real x = (if 0 \<le> x then \<lfloor>x\<rfloor> else \<lceil>x\<rceil>)"

definition static_cast_int :: "real \<Rightarrow> int" where
  "static_cast_int x =
     (if INT_MIN \<le> truncate_real x \<and> truncate_real x \<le> INT_MAX then truncate_real x
      else INT_MIN)"

text \<open>
  Modelled from the spec: the form layer behind a form handle draws its widget
  appearances onto a buffer; it is given the page, the device rectangle, the rotation and
  the flags, and nothing else. \<^verbatim>\<open>nullptr\<close> is \<open>None\<close>.
\<close>

type_synonym FormLayer =
  "FPDF_PAGE \<Rightarrow> int \<times> int \<times> int \<times> int \<Rightarrow> int \<Rightarrow> int \<Rightarrow> FX_ARGB list \<Rightarrow> FX_ARGB list"

type_synonym FPDF_FORMHANDLE = "FormLayer option"

text \<open>
  Modelled from the spec: the overlay compositor on a target. "If no form layer is
  supplied, this step is a no-op and the buffer is unchanged."
\<close>

definition draw_forms ::
  "FPDF_FORMHANDLE \<Rightarrow> FPDF_BITMAP \<Rightarrow> FPDF_PAGE \<Rightarrow> int \<Rightarrow> int \<Rightarrow> int \<Rightarrow> int \<Rightarrow> int \<Rightarrow> int
     \<Rightarrow> FPDF_BITMAP" where
  "draw_forms handle bitmap page start_x start_y size_x size_y rotation flags =
     bitmap\<lparr>pixels :=
               (case handle of
                  None \<Rightarrow> pixels bitmap
                | Some layer \<Rightarrow>
                    layer page (start_x, start_y, size_x, size_y) rotation flags (pixels bitmap)),
            history := history bitmap @ [Overlaid]\<rparr>"

text \<open>
  Modelled from the spec: \<^verbatim>\<open>FPDF_FFLDraw\<close> takes a pointer to the target. On a null
  pointer there is no target to draw on and the call does nothing.
\<close>

definition FPDF_FFLDraw ::
  "FPDF_FORMHANDLE \<Rightarrow> FPDF_BITMAP option \<Rightarrow> FPDF_PAGE \<Rightarrow> int \<Rightarrow> int \<Rightarrow> int \<Rightarrow> int \<Rightarrow> int
     \<Rightarrow> int \<Rightarrow> FPDF_BITMAP option" where
  "FPDF_FFLDraw handle bitmap page start_x start_y size_x size_y rotation flags =
     (case bitmap of
        None \<Rightarrow> None
      | Some b \<Rightarrow> Some (draw_forms handle b page start_x start_y size_x size_y rotation flags))"

subsection \<open>The render session\<close>

text \<open>
  Modelled from the spec: the session state machine,
  \<open>NotStarted --Start--> InProgress | Done\<close>, \<open>InProgress --Continue--> InProgress | Done\<close>,
  \<open>Done --Close--> terminal\<close>. \<open>Closed\<close> is that terminal: "no operation is valid after
  Close". The cursor is the index of the next object of the list to rasterize.
\<close>

datatype SessionState = NotStarted | InProgress | Done | Closed

record RenderSession =
  state :: SessionState
  cursor :: nat
  config :: "RenderConfig option"

definition new_session :: RenderSession where
  "new_session = \<lparr>state = NotStarted, cursor = 0, config = None\<rparr>"

text \<open>Painting the object under the cursor: the backend call, and its trace entry.\<close>

definition paint_object :: "RenderConfig \<Rightarrow> PageObject list \<Rightarrow> nat \<Rightarrow> FPDF_BITMAP \<Rightarrow> FPDF_BITMAP" where
  "paint_object cfg objs cur bitmap =
     bitmap\<lparr>pixels := (objs ! cur) cfg (bmp_width bitmap) (bmp_height bitmap) (pixels bitmap),
            history := history bitmap @ [Painted cur]\<rparr>"

text \<open>
  Modelled from the spec: the rasterization loop shared by Start and Continue. A batch is
  one page object. "After processing a bounded batch of objects, it queries the Pause
  Controller. If the controller signals pause now, the call returns ToBeContinued with
  the cursor preserved; otherwise it keeps going until the object list is exhausted,
  returning Done."
\<close>

function rasterize ::
  "FakePause \<Rightarrow> RenderConfig \<Rightarrow> PageObject list \<Rightarrow> nat \<Rightarrow> FPDF_BITMAP
     \<Rightarrow> Status \<times> nat \<times> FPDF_BITMAP" where
  "rasterize pause cfg objs cur bitmap =
     (if length objs \<le> cur then (StatusDone, cur, bitmap)
      else if Pause_NeedToPauseNow pause
           then (ToBeContinued, Suc cur, paint_object cfg objs cur bitmap)
           else rasterize pause cfg objs (Suc cur) (paint_object cfg objs cur bitmap))"
  by pat_completeness auto
termination
  by (relation "measure (\<lambda>(pause, cfg, objs, cur, bitmap). length objs - cur)") auto

declare rasterize.simps [simp del]

text \<open>
  Modelled from the spec: \<open>Start\<close>. It is valid on a session that has not started and
  "validates that target dimensions match the page's device extent under config", then
  rasterizes from cursor 0. The fill that the design document describes with Start is
  the caller's \<^verbatim>\<open>FPDFBitmap_FillRect\<close> (see \<open>StartRenderPageWithFlags\<close> below), so this
  entry point does not fill again: the explicit background of
  \<open>StartRenderPageWithColorSchemeAndBackground\<close> would otherwise be lost. An error
  leaves the session and the bitmap as they were.
\<close>

definition FPDF_RenderPageBitmapWithColorScheme_Start ::
  "FPDF_BITMAP \<Rightarrow> FPDF_PAGE \<Rightarrow> int \<Rightarrow> int \<Rightarrow> int \<Rightarrow> int \<Rightarrow> int \<Rightarrow> int
     \<Rightarrow> FPDF_COLORSCHEME option \<Rightarrow> FakePause \<Rightarrow> RenderSession
     \<Rightarrow> (error + Status) \<times> RenderSession \<times> FPDF_BITMAP" where
  "FPDF_RenderPageBitmapWithColorScheme_Start bitmap page start_x start_y size_x size_y
       rotation flags color_scheme pause sess =
     (if state sess = NotStarted then
        if bmp_width bitmap = size_x \<and> bmp_height bitmap = size_y then
          let cfg = \<lparr>cfg_rect = (start_x, start_y, size_x, size_y), cfg_rotate = rotation,
                     cfg_flags = flags, cfg_color_scheme = color_scheme\<rparr>;
              (st, cur, bitmap') = rasterize pause cfg (page_objects page) 0 bitmap
          in (Inr st,
              \<lparr>state = (case st of StatusDone \<Rightarrow> Done | ToBeContinued \<Rightarrow> InProgress),
               cursor = cur, config = Some cfg\<rparr>,
              bitmap')
        else (Inl InvalidArgument, sess, bitmap)
      else (Inl InvalidState, sess, bitmap))"

text \<open>Modelled from the spec: \<open>Start\<close> without a colour scheme.\<close>

definition FPDF_RenderPageBitmap_Start ::
  "FPDF_BITMAP \<Rightarrow> FPDF_PAGE \<Rightarrow> int \<Rightarrow> int \<Rightarrow> int \<Rightarrow> int \<Rightarrow> int \<Rightarrow> int
     \<Rightarrow> FakePause \<Rightarrow> RenderSession \<Rightarrow> (error + Status) \<times> RenderSession \<times> FPDF_BITMAP" where
  "FPDF_RenderPageBitmap_Start bitmap page start_x start_y size_x size_y rotation flags pause sess =
     FPDF_RenderPageBitmapWithColorScheme_Start bitmap page start_x start_y size_x size_y
       rotation flags None pause sess"

text \<open>
  Modelled from the spec: \<open>Continue\<close>, "only valid when SessionState is InProgress;
  fails with InvalidState otherwise. Resumes rasterization at the preserved cursor, using
  the same batching/pause-check policy as Start". The session paints into the target it
  was started on. The harness starts a session on the bitmap it has just stored in the
  fixture, so the target is passed here as the bitmap the fixture holds, \<open>None\<close> when
  the fixture holds none. The state is checked first; a session in progress whose
  target is no longer at hand cannot paint and reports \<open>InvalidArgument\<close> ("absent
  target where one is required"). An error leaves the session and the target as they
  were.
\<close>

definition FPDF_RenderPage_Continue ::
  "FPDF_PAGE \<Rightarrow> FakePause \<Rightarrow> RenderSession \<Rightarrow> FPDF_BITMAP option
     \<Rightarrow> (error + Status) \<times> RenderSession \<times> FPDF_BITMAP option" where
  "FPDF_RenderPage_Continue page pause sess target =
     (if state sess = InProgress then
        case config sess of
          None \<Rightarrow> (Inl InvalidState, sess, target)
        | Some cfg \<Rightarrow>
            (case target of
               None \<Rightarrow> (Inl InvalidArgument, sess, target)
             | Some bitmap \<Rightarrow>
                 let (st, cur, bitmap') =
                       rasterize pause cfg (page_objects page) (cursor sess) bitmap
                 in (Inr st,
                     sess\<lparr>state := (case st of StatusDone \<Rightarrow> Done | ToBeContinued \<Rightarrow> InProgress),
                          cursor := cur\<rparr>,
                     Some bitmap'))
      else (Inl InvalidState, sess, target))"

text \<open>
  Modelled from the spec: \<open>Close\<close>, "only valid when SessionState is Done; fails with
  InvalidState if called from InProgress or NotStarted. Releases internal session state".
\<close>

definition FPDF_RenderPage_Close :: "FPDF_PAGE \<Rightarrow> RenderSession \<Rightarrow> (error + unit) \<times> RenderSession" where
  "FPDF_RenderPage_Close page sess =
     (if state sess = Done then (Inr (), \<lparr>state = Closed, cursor = 0, config = None\<rparr>)
      else (Inl InvalidState, sess))"

subsection \<open>The test fixture\<close>

text \<open>
  The members of \<^verbatim>\<open>FPDFProgressiveRenderEmbedderTest\<close>: the bitmap kept alive between the
  calls (\<open>None\<close> is the empty \<^verbatim>\<open>ScopedFPDFBitmap\<close>) and the flags of the render in
  progress; \<^verbatim>\<open>form_handle()\<close> of the base class; and the render session that the library
  keeps for the loaded page.
\<close>

record Fixture =
  progressive_render_bitmap :: "FPDF_BITMAP option"
  progressive_render_flags :: int
  form_handle :: FPDF_FORMHANDLE
  render_session :: RenderSession

definition new_fixture :: "FPDF_FORMHANDLE \<Rightarrow> Fixture" where
  "new_fixture handle =
     \<lparr>progressive_render_bitmap = None, progressive_render_flags = 0,
      form_handle = handle, render_session = new_session\<rparr>"

text \<open>
  Both start functions return true when the render is complete, that is when the code
  returned by the library is not \<^verbatim>\<open>FPDF_RENDER_TOBECONTINUED\<close>.
\<close>

definition StartRenderPageWithFlags ::
  "FPDF_PAGE \<Rightarrow> FakePause \<Rightarrow> int \<Rightarrow> Fixture \<Rightarrow> bool \<times> Fixture" where
  "StartRenderPageWithFlags page pause flags t =
     (let width = static_cast_int (FPDF_GetPageWidth page);
          height = static_cast_int (FPDF_GetPageHeight page);
          alpha = (if FPDFPage_HasTransparency page then 1 else 0);
          bitmap = FPDFBitmap_Create width height alpha;
          fill_color = (if alpha \<noteq> 0 then 0x00000000 else 0xFFFFFFFF);
          bitmap1 = FPDFBitmap_FillRect bitmap 0 0 width height fill_color;
          (rv, sess, bitmap2) =
             FPDF_RenderPageBitmap_Start bitmap1 page 0 0 width height 0 flags pause
               (render_session t)
      in (status_code rv \<noteq> FPDF_RENDER_TOBECONTINUED,
          t\<lparr>progressive_render_flags := flags, progressive_render_bitmap := Some bitmap2,
            render_session := sess\<rparr>))"

definition StartRenderPage :: "FPDF_PAGE \<Rightarrow> FakePause \<Rightarrow> Fixture \<Rightarrow> bool \<times> Fixture" where
  "StartRenderPage page pause t = StartRenderPageWithFlags page pause 0 t"

text \<open>
  The start with a colour scheme and a background. \<^verbatim>\<open>FPDFBitmap_Create\<close> always returns
  a bitmap here, so the \<^verbatim>\<open>DCHECK\<close> that follows it in the source holds.
\<close>

definition StartRenderPageWithColorSchemeAndBackground ::
  "FPDF_PAGE \<Rightarrow> FakePause \<Rightarrow> int \<Rightarrow> FPDF_COLORSCHEME option \<Rightarrow> FPDF_DWORD \<Rightarrow> Fixture
     \<Rightarrow> bool \<times> Fixture" where
  "StartRenderPageWithColorSchemeAndBackground page pause flags color_scheme background_color t =
     (let width = static_cast_int (FPDF_GetPageWidth page);
          height = static_cast_int (FPDF_GetPageHeight page);
          alpha = (if FPDFPage_HasTransparency page then 1 else 0);
          bitmap = FPDFBitmap_Create width height alpha;
          bitmap1 = FPDFBitmap_FillRect bitmap 0 0 width height background_color;
          (rv, sess, bitmap2) =
             FPDF_RenderPageBitmapWithColorScheme_Start bitmap1 page 0 0 width height 0 flags
               color_scheme pause (render_session t)
      in (status_code rv \<noteq> FPDF_RENDER_TOBECONTINUED,
          t\<lparr>progressive_render_flags := flags, progressive_render_bitmap := Some bitmap2,
            render_session := sess\<rparr>))"

text \<open>
  \<^verbatim>\<open>DCHECK(progressive_render_bitmap_)\<close> opens the next two functions. \<^verbatim>\<open>DCHECK\<close> is
  compiled in or out with the build: the parameter \<open>dcheck_is_on\<close> says which. In a
  build with the checks, a call without a bitmap stops there, which is the result
  \<open>None\<close>; in a build without them the check is no code at all and the function goes on
  with the null pointer.
\<close>

definition ContinueRenderPage ::
  "bool \<Rightarrow> FPDF_PAGE \<Rightarrow> FakePause \<Rightarrow> Fixture \<Rightarrow> (bool \<times> Fixture) option" where
  "ContinueRenderPage dcheck_is_on page pause t =
     (if dcheck_is_on \<and> progressive_render_bitmap t = None then None
      else
        let (rv, sess, bitmap') =
              FPDF_RenderPage_Continue page pause (render_session t) (progressive_render_bitmap t)
        in Some (status_code rv \<noteq> FPDF_RENDER_TOBECONTINUED,
                 t\<lparr>progressive_render_bitmap := bitmap', render_session := sess\<rparr>))"

text \<open>
  The result of \<^verbatim>\<open>FPDF_RenderPage_Close\<close> is not looked at. The bitmap is moved out of
  the fixture and returned; the returned pointer is null (\<open>None\<close>) when the fixture held
  no bitmap and the build has no checks.
\<close>

definition FinishRenderPageWithForms ::
  "bool \<Rightarrow> FPDF_PAGE \<Rightarrow> FPDF_FORMHANDLE \<Rightarrow> Fixture \<Rightarrow> (FPDF_BITMAP option \<times> Fixture) option" where
  "FinishRenderPageWithForms dcheck_is_on page handle t =
     (if dcheck_is_on \<and> progressive_render_bitmap t = None then None
      else
        let width = static_cast_int (FPDF_GetPageWidth page);
            height = static_cast_int (FPDF_GetPageHeight page);
            bitmap' = FPDF_FFLDraw handle (progressive_render_bitmap t) page 0 0 width height 0
                        (progressive_render_flags t);
            (closed, sess) = FPDF_RenderPage_Close page (render_session t)
        in Some (bitmap', t\<lparr>progressive_render_bitmap := None, render_session := sess\<rparr>))"

definition FinishRenderPage ::
  "bool \<Rightarrow> FPDF_PAGE \<Rightarrow> Fixture \<Rightarrow> (FPDF_BITMAP option \<times> Fixture) option" where
  "FinishRenderPage dcheck_is_on page t = FinishRenderPageWithForms dcheck_is_on page None t"

text \<open>
  The loop \<^verbatim>\<open>while (!render_done) render_done = ContinueRenderPage(page, &pause);\<close>
  of the tests and of \<open>RenderPageWithForcedColorScheme\<close>.
\<close>

function render_loop ::
  "bool \<Rightarrow> FPDF_PAGE \<Rightarrow> FakePause \<Rightarrow> bool \<Rightarrow> Fixture \<Rightarrow> Fixture option" where
  "render_loop dcheck_is_on page pause render_done t =
     (if render_done then Some t
      else case ContinueRenderPage dcheck_is_on page pause t of
             None \<Rightarrow> None
           | Some (finished, t') \<Rightarrow> render_loop dcheck_is_on page pause finished t')"
  by pat_completeness auto

text \<open>
  The loop ends: a call that reports "to be continued" has painted the object under the
  cursor and moved the cursor on, and the cursor cannot pass the end of the list.
\<close>

termination
proof (relation "measure (\<lambda>(dcheck_is_on, page, pause, render_done, t).
          if render_done then 0 else Suc (length (page_objects page) - cursor (render_session t)))")
  show "wf (measure (\<lambda>(dcheck_is_on, page, pause, render_done, t).
          if render_done then 0 else Suc (length (page_objects page) - cursor (render_session t))))"
    by simp
next
  fix dcheck_is_on :: bool and page :: FPDF_PAGE and pause :: FakePause and render_done :: bool
    and t x2 :: Fixture and x :: "bool \<times> Fixture" and finished :: bool
  assume nd: "\<not> render_done"
    and c: "ContinueRenderPage dcheck_is_on page pause t = Some x"
    and x: "(finished, x2) = x"
  have paused: "Pause_NeedToPauseNow p \<and> cur < length objs \<and> cur' = Suc cur"
    if "rasterize p cfg objs cur b = (ToBeContinued, cur', b')" for p cfg objs cur b cur' b'
    using that
  proof (induction p cfg objs cur b rule: rasterize.induct)
    case (1 p cfg objs cur b)
    from "1.prems" have nle: "\<not> length objs \<le> cur"
      by (subst (asm) rasterize.simps) (simp split: if_splits)
    show ?case
    proof (cases "Pause_NeedToPauseNow p")
      case True
      with "1.prems" nle show ?thesis
        by (subst (asm) rasterize.simps) simp
    next
      case False
      with "1.prems" nle
      have "rasterize p cfg objs (Suc cur) (paint_object cfg objs cur b) = (ToBeContinued, cur', b')"
        by (subst (asm) rasterize.simps) simp
      from "1.IH" [OF nle False this] False show ?thesis by simp
    qed
  qed
  show "((dcheck_is_on, page, pause, finished, x2), (dcheck_is_on, page, pause, render_done, t))
          \<in> measure (\<lambda>(dcheck_is_on, page, pause, render_done, t).
          if render_done then 0 else Suc (length (page_objects page) - cursor (render_session t)))"
  proof (cases finished)
    case True
    with nd show ?thesis by simp
  next
    case False
    obtain rv sess target' where
      k: "FPDF_RenderPage_Continue page pause (render_session t) (progressive_render_bitmap t)
            = (rv, sess, target')"
      by (cases "FPDF_RenderPage_Continue page pause (render_session t)
                   (progressive_render_bitmap t)") auto
    from c x k False have rv: "status_code rv = FPDF_RENDER_TOBECONTINUED"
      and x2: "render_session x2 = sess"
      by (auto simp: ContinueRenderPage_def split: if_splits)
    from rv have "rv = Inr ToBeContinued"
      by (cases rv rule: status_code.cases)
         (simp_all add: FPDF_RENDER_TOBECONTINUED_def FPDF_RENDER_FAILED_def FPDF_RENDER_DONE_def)
    with k obtain cfg bitmap cur' bitmap' where
      r: "rasterize pause cfg (page_objects page) (cursor (render_session t)) bitmap
            = (ToBeContinued, cur', bitmap')"
      and s: "cursor sess = cur'"
      by (auto simp: FPDF_RenderPage_Continue_def split: if_splits option.splits prod.splits)
    from paused [OF r] s x2 nd False show ?thesis by auto
  qed
qed

declare render_loop.simps [simp del]

subsection \<open>The render flows of the tests\<close>

text \<open>
  Each flow returns whether its \<^verbatim>\<open>EXPECT_\<close> check held, the bitmap pointer handed to
  \<^verbatim>\<open>CompareBitmap\<close>, and the fixture afterwards; \<open>None\<close> when a \<^verbatim>\<open>DCHECK\<close> stopped it.
  The page is the one \<^verbatim>\<open>LoadPage\<close> returned.
\<close>


definition RenderWithoutPause ::
  "bool \<Rightarrow> FPDF_PAGE \<Rightarrow> Fixture \<Rightarrow> (bool \<times> FPDF_BITMAP option \<times> Fixture) option" where
  "RenderWithoutPause dcheck_is_on page t =
     (let pause = FakePause_new False;
          (complete, t1) = StartRenderPage page pause t
      in case FinishRenderPage dcheck_is_on page t1 of
           None \<Rightarrow> None
         | Some (bitmap, t2) \<Rightarrow> Some (complete, bitmap, t2))"

definition RenderWithPause ::
  "bool \<Rightarrow> FPDF_PAGE \<Rightarrow> Fixture \<Rightarrow> (bool \<times> FPDF_BITMAP option \<times> Fixture) option" where
  "RenderWithPause dcheck_is_on page t =
     (let pause = FakePause_new True;
          (render_done, t1) = StartRenderPage page pause t
      in case render_loop dcheck_is_on page pause render_done t1 of
           None \<Rightarrow> None
         | Some t2 \<Rightarrow>
             (case FinishRenderPage dcheck_is_on page t2 of
                None \<Rightarrow> None
              | Some (bitmap, t3) \<Rightarrow> Some (\<not> render_done, bitmap, t3)))"


subsection \<open>Sessions\<close>



subsection \<open>Reference results\<close>

text \<open>
  The buffer after the objects from \<open>cur\<close> to the end of the list have been painted in
  list order, the target as the harness prepares it before the first render call, and
  the pixels of a buffer of one colour after the first \<open>k\<close> objects of the page have been
  painted on it one after the other and the form layer over them. They are only used
  to state results.
\<close>

definition paint_rest :: "RenderConfig \<Rightarrow> PageObject list \<Rightarrow> nat \<Rightarrow> FPDF_BITMAP \<Rightarrow> FPDF_BITMAP" where
  "paint_rest cfg objs cur bitmap =
     foldl (\<lambda>b i. paint_object cfg objs i b) bitmap [cur..<length objs]"

definition prepared_target :: "FPDF_PAGE \<Rightarrow> FPDF_DWORD \<Rightarrow> FPDF_BITMAP" where
  "prepared_target page color =
     FPDFBitmap_FillRect
       (FPDFBitmap_Create (static_cast_int (FPDF_GetPageWidth page))
          (static_cast_int (FPDF_GetPageHeight page))
          (if FPDFPage_HasTransparency page then 1 else 0))
       0 0 (static_cast_int (FPDF_GetPageWidth page)) (static_cast_int (FPDF_GetPageHeight page))
       color"

definition page_config :: "FPDF_PAGE \<Rightarrow> int \<Rightarrow> FPDF_COLORSCHEME option \<Rightarrow> RenderConfig" where
  "page_config page flags color_scheme =
     \<lparr>cfg_rect = (0, 0, static_cast_int (FPDF_GetPageWidth page),
                   static_cast_int (FPDF_GetPageHeight page)),
      cfg_rotate = 0, cfg_flags = flags, cfg_color_scheme = color_scheme\<rparr>"



text \<open>A two-by-one page with two objects and a one-pixel form layer, for concrete runs.\<close>

definition sample_page :: FPDF_PAGE where
  "sample_page =
     \<lparr>page_width = 5 / 2, page_height = 1, has_transparency = False,
      page_objects = [\<lambda>cfg w h px. px[0 := kRed], \<lambda>cfg w h px. px[1 := kBlue]]\<rparr>"


section \<open>Properties\<close>

subsection \<open>The rasterization loop\<close>

text \<open>
  What one call of the loop returns, and what painting the rest of the list does to the
  history and the shape of the bitmap.
\<close>

lemma rasterize_exhausted:
  "length objs \<le> cur \<Longrightarrow> rasterize p cfg objs cur b = (StatusDone, cur, b)"
  by (subst rasterize.simps) simp

lemma rasterize_paused:
  "Pause_NeedToPauseNow p \<Longrightarrow> cur < length objs \<Longrightarrow>
   rasterize p cfg objs cur b = (ToBeContinued, Suc cur, paint_object cfg objs cur b)"
  by (subst rasterize.simps) simp

lemma paint_rest_end: "length objs \<le> cur \<Longrightarrow> paint_rest cfg objs cur b = b"
  by (simp add: paint_rest_def)

lemma paint_rest_step:
  "cur < length objs \<Longrightarrow>
   paint_rest cfg objs cur b = paint_rest cfg objs (Suc cur) (paint_object cfg objs cur b)"
  by (simp add: paint_rest_def upt_conv_Cons)

lemma rasterize_no_pause:
  "\<not> Pause_NeedToPauseNow p \<Longrightarrow> cur \<le> length objs \<Longrightarrow>
   rasterize p cfg objs cur b = (StatusDone, length objs, paint_rest cfg objs cur b)"
proof (induction p cfg objs cur b rule: rasterize.induct)
  case (1 p cfg objs cur b)
  show ?case
  proof (cases "cur < length objs")
    case True
    with "1.prems" "1.IH" have
      "rasterize p cfg objs (Suc cur) (paint_object cfg objs cur b)
         = (StatusDone, length objs, paint_rest cfg objs (Suc cur) (paint_object cfg objs cur b))"
      by simp
    with True "1.prems" show ?thesis
      by (subst rasterize.simps) (simp add: paint_rest_step)
  next
    case False
    with "1.prems" have "cur = length objs" by simp
    then show ?thesis by (simp add: rasterize_exhausted paint_rest_end)
  qed
qed

lemma history_paint_rest:
  "history (paint_rest cfg objs cur b) = history b @ map Painted [cur..<length objs]"
proof (induction "length objs - cur" arbitrary: cur b)
  case 0
  then show ?case by (simp add: paint_rest_end)
next
  case (Suc k)
  then have lt: "cur < length objs" and k: "k = length objs - Suc cur" by simp_all
  from Suc.hyps(1) [OF k] lt show ?case
    by (simp add: paint_rest_step paint_object_def upt_conv_Cons)
qed

lemma shape_paint_object:
  "bmp_width (paint_object cfg objs cur b) = bmp_width b"
  "bmp_height (paint_object cfg objs cur b) = bmp_height b"
  "bmp_alpha (paint_object cfg objs cur b) = bmp_alpha b"
  by (simp_all add: paint_object_def)

lemma shape_paint_rest:
  "bmp_width (paint_rest cfg objs cur b) = bmp_width b \<and>
   bmp_height (paint_rest cfg objs cur b) = bmp_height b \<and>
   bmp_alpha (paint_rest cfg objs cur b) = bmp_alpha b"
proof (induction "length objs - cur" arbitrary: cur b)
  case 0
  then show ?case by (simp add: paint_rest_end)
next
  case (Suc k)
  then have lt: "cur < length objs" and k: "k = length objs - Suc cur" by simp_all
  from Suc.hyps(1) [OF k] lt show ?case
    by (simp add: paint_rest_step shape_paint_object)
qed

lemma history_prefix:
  "k \<le> length objs \<Longrightarrow>
   history (foldl (\<lambda>b i. paint_object cfg objs i b) b0 [0..<k]) = history b0 @ map Painted [0..<k]"
  by (induction k) (simp_all add: paint_object_def)

lemma shape_prefix:
  "bmp_width (foldl (\<lambda>b i. paint_object cfg objs i b) b0 [0..<k]) = bmp_width b0 \<and>
   bmp_height (foldl (\<lambda>b i. paint_object cfg objs i b) b0 [0..<k]) = bmp_height b0 \<and>
   bmp_alpha (foldl (\<lambda>b i. paint_object cfg objs i b) b0 [0..<k]) = bmp_alpha b0"
  by (induction k) (simp_all add: paint_object_def)

subsection \<open>The prepared target\<close>

text \<open>
  The fill over the whole rectangle reaches every pixel. The conversion of the page
  extent to integers stays within the range of \<^verbatim>\<open>int\<close> and drops the fraction of an
  extent that fits.
\<close>

lemma in_rect_full:
  assumes "i < nat w * nat h"
  shows "in_rect w 0 0 w h i"
proof -
  from assms have w: "0 < w" and h: "0 < h"
    by (cases "0 < w"; cases "0 < h"; simp)+
  from assms have "int i < int (nat w * nat h)" by (simp only: of_nat_less_iff)
  also from w h have "int (nat w * nat h) = w * h" by simp
  finally have lt: "int i < w * h" .
  have "w * (int i div w) + int i mod w = int i" by simp
  moreover from w have "0 \<le> int i mod w" by simp
  ultimately have "w * (int i div w) < w * h" using lt by linarith
  with w have "int i div w < h" by simp
  moreover from w have "0 \<le> int i div w" by (simp add: pos_imp_zdiv_nonneg_iff)
  ultimately show ?thesis using w
    by (simp add: in_rect_def)
qed

lemma pixels_prepared_target:
  "pixels (prepared_target page color)
   = replicate (nat (static_cast_int (FPDF_GetPageWidth page)) *
                nat (static_cast_int (FPDF_GetPageHeight page))) color"
  by (rule nth_equalityI)
     (simp_all add: prepared_target_def FPDFBitmap_FillRect_def FPDFBitmap_Create_def in_rect_full)

lemma prepared_target_shape:
  "history (prepared_target page color) = [Filled color]"
  "bmp_width (prepared_target page color) = static_cast_int (FPDF_GetPageWidth page)"
  "bmp_height (prepared_target page color) = static_cast_int (FPDF_GetPageHeight page)"
  "bmp_alpha (prepared_target page color) = FPDFPage_HasTransparency page"
  by (simp_all add: prepared_target_def FPDFBitmap_FillRect_def FPDFBitmap_Create_def)

lemma history_painted:
  "history (paint_rest cfg objs 0 (prepared_target page color))
   = Filled color # map Painted [0..<length objs]"
  by (simp add: history_paint_rest prepared_target_shape)

lemma static_cast_int_in_range:
  "- 2147483648 \<le> static_cast_int x \<and> static_cast_int x \<le> 2147483647"
  by (simp add: static_cast_int_def INT_MIN_def INT_MAX_def)

lemma static_cast_int_truncates:
  assumes "- 2147483649 < x" "x < 2147483648"
  shows "static_cast_int x = (if 0 \<le> x then \<lfloor>x\<rfloor> else \<lceil>x\<rceil>)"
proof -
  from assms(2) have "\<lfloor>x\<rfloor> < 2147483648" by (simp add: floor_less_iff)
  moreover from assms(1) have "- 2147483648 \<le> \<lceil>x\<rceil>" by (simp add: le_ceiling_iff)
  moreover have "0 \<le> x \<Longrightarrow> 0 \<le> \<lfloor>x\<rfloor>" by simp
  moreover have "\<not> 0 \<le> x \<Longrightarrow> \<lceil>x\<rceil> \<le> 0" by (simp add: ceiling_le_iff)
  ultimately show ?thesis
    by (auto simp: static_cast_int_def truncate_real_def INT_MIN_def INT_MAX_def)
qed

lemma static_cast_int_examples:
  "static_cast_int (5 / 2) = 2" "static_cast_int (- 5 / 2) = - 2" "static_cast_int 842 = 842"
  "static_cast_int 1 = 1" "static_cast_int 3000000000 = - 2147483648"
  by (simp_all add: static_cast_int_def truncate_real_def INT_MIN_def INT_MAX_def)

subsection \<open>Calls of the library\<close>



lemma Close_Done:
  "FPDF_RenderPage_Close page \<lparr>state = Done, cursor = c, config = cfg\<rparr>
   = (Inr (), \<lparr>state = Closed, cursor = 0, config = None\<rparr>)"
  by (simp add: FPDF_RenderPage_Close_def)

lemma history_draw_forms:
  "history (draw_forms handle b page x y sx sy r f) = history b @ [Overlaid]"
  by (simp add: draw_forms_def)


subsection \<open>Steps of the harness\<close>

text \<open>
  Each function of the fixture on the states the render flows go through.
\<close>

lemma Pause_FakePause_new [simp]: "Pause_NeedToPauseNow (FakePause_new b) = b"
  by (simp add: Pause_NeedToPauseNow_def FakePause_new_def)

lemma Continue_paused:
  assumes "Pause_NeedToPauseNow p" "c < length (page_objects page)"
  shows "ContinueRenderPage d page p
           \<lparr>progressive_render_bitmap = Some b, progressive_render_flags = f, form_handle = h,
            render_session = \<lparr>state = InProgress, cursor = c, config = Some cfg\<rparr>\<rparr>
         = Some (False,
             \<lparr>progressive_render_bitmap = Some (paint_object cfg (page_objects page) c b),
              progressive_render_flags = f, form_handle = h,
              render_session = \<lparr>state = InProgress, cursor = Suc c, config = Some cfg\<rparr>\<rparr>)"
  using assms
  by (simp add: ContinueRenderPage_def FPDF_RenderPage_Continue_def rasterize_paused
        FPDF_RENDER_TOBECONTINUED_def)

lemma Continue_exhausted:
  assumes "length (page_objects page) \<le> c"
  shows "ContinueRenderPage d page p
           \<lparr>progressive_render_bitmap = Some b, progressive_render_flags = f, form_handle = h,
            render_session = \<lparr>state = InProgress, cursor = c, config = Some cfg\<rparr>\<rparr>
         = Some (True,
             \<lparr>progressive_render_bitmap = Some b,
              progressive_render_flags = f, form_handle = h,
              render_session = \<lparr>state = Done, cursor = c, config = Some cfg\<rparr>\<rparr>)"
  using assms
  by (simp add: ContinueRenderPage_def FPDF_RenderPage_Continue_def rasterize_exhausted
        FPDF_RENDER_TOBECONTINUED_def FPDF_RENDER_DONE_def)

lemma render_loop_done: "render_loop d page p True t = Some t"
  by (subst render_loop.simps) simp

lemma render_loop_paused:
  assumes "Pause_NeedToPauseNow p" "c \<le> length (page_objects page)"
  shows "render_loop d page p False
           \<lparr>progressive_render_bitmap = Some b, progressive_render_flags = f, form_handle = h,
            render_session = \<lparr>state = InProgress, cursor = c, config = Some cfg\<rparr>\<rparr>
         = Some \<lparr>progressive_render_bitmap = Some (paint_rest cfg (page_objects page) c b),
              progressive_render_flags = f, form_handle = h,
              render_session = \<lparr>state = Done, cursor = length (page_objects page),
                                config = Some cfg\<rparr>\<rparr>"
  using assms
proof (induction "length (page_objects page) - c" arbitrary: c b)
  case 0
  then have "c = length (page_objects page)" by simp
  then show ?case
    by (subst render_loop.simps, simp add: Continue_exhausted paint_rest_end)
       (subst render_loop.simps, simp)
next
  case (Suc k)
  then have lt: "c < length (page_objects page)"
    and k: "k = length (page_objects page) - Suc c" by simp_all
  from lt have le: "Suc c \<le> length (page_objects page)" by simp
  from Suc.hyps(1) [OF k Suc.prems(1) le] lt Suc.prems(1) show ?case
    by (subst render_loop.simps) (simp add: Continue_paused paint_rest_step)
qed

lemma Start_not_paused:
  assumes "\<not> Pause_NeedToPauseNow p" "state (render_session t) = NotStarted"
  shows "StartRenderPageWithColorSchemeAndBackground page p flags cs bg t
         = (True,
            t\<lparr>progressive_render_flags := flags,
              progressive_render_bitmap :=
                Some (paint_rest (page_config page flags cs) (page_objects page) 0
                        (prepared_target page bg)),
              render_session := \<lparr>state = Done, cursor = length (page_objects page),
                                  config = Some (page_config page flags cs)\<rparr>\<rparr>)"
  using assms
  by (simp add: StartRenderPageWithColorSchemeAndBackground_def Let_def
        FPDF_RenderPageBitmapWithColorScheme_Start_def rasterize_no_pause
        FPDFBitmap_FillRect_def FPDFBitmap_Create_def prepared_target_def page_config_def
        FPDF_RENDER_TOBECONTINUED_def FPDF_RENDER_DONE_def)

lemma Start_paused:
  assumes "Pause_NeedToPauseNow p" "state (render_session t) = NotStarted"
    "page_objects page \<noteq> []"
  shows "StartRenderPageWithColorSchemeAndBackground page p flags cs bg t
         = (False,
            t\<lparr>progressive_render_flags := flags,
              progressive_render_bitmap :=
                Some (paint_object (page_config page flags cs) (page_objects page) 0
                        (prepared_target page bg)),
              render_session := \<lparr>state = InProgress, cursor = Suc 0,
                                  config = Some (page_config page flags cs)\<rparr>\<rparr>)"
  using assms
  by (simp add: StartRenderPageWithColorSchemeAndBackground_def Let_def
        FPDF_RenderPageBitmapWithColorScheme_Start_def rasterize_paused
        FPDFBitmap_FillRect_def FPDFBitmap_Create_def prepared_target_def page_config_def
        FPDF_RENDER_TOBECONTINUED_def)

lemma Start_empty:
  assumes "state (render_session t) = NotStarted" "page_objects page = []"
  shows "StartRenderPageWithColorSchemeAndBackground page p flags cs bg t
         = (True,
            t\<lparr>progressive_render_flags := flags,
              progressive_render_bitmap := Some (prepared_target page bg),
              render_session := \<lparr>state = Done, cursor = 0,
                                  config = Some (page_config page flags cs)\<rparr>\<rparr>)"
  using assms
  by (simp add: StartRenderPageWithColorSchemeAndBackground_def Let_def
        FPDF_RenderPageBitmapWithColorScheme_Start_def rasterize_exhausted
        FPDFBitmap_FillRect_def FPDFBitmap_Create_def prepared_target_def page_config_def
        FPDF_RENDER_TOBECONTINUED_def FPDF_RENDER_DONE_def)

lemma StartRenderPageWithFlags_eq:
  "StartRenderPageWithFlags page p flags t
   = StartRenderPageWithColorSchemeAndBackground page p flags None
       (if FPDFPage_HasTransparency page then 0x00000000 else 0xFFFFFFFF) t"
  by (simp add: StartRenderPageWithFlags_def StartRenderPageWithColorSchemeAndBackground_def
        FPDF_RenderPageBitmap_Start_def Let_def)

lemma Start_bitmap_cases:
  "\<exists>b. progressive_render_bitmap
          (snd (StartRenderPageWithColorSchemeAndBackground page p flags cs bg t)) = Some b \<and>
        (b = prepared_target page bg \<or>
         b = paint_object (page_config page flags cs) (page_objects page) 0 (prepared_target page bg) \<or>
         b = paint_rest (page_config page flags cs) (page_objects page) 0 (prepared_target page bg))"
proof (cases "state (render_session t) = NotStarted")
  case False
  then show ?thesis
    by (simp add: StartRenderPageWithColorSchemeAndBackground_def Let_def
          FPDF_RenderPageBitmapWithColorScheme_Start_def prepared_target_def)
next
  case ns: True
  show ?thesis
  proof (cases "Pause_NeedToPauseNow p")
    case False
    with ns show ?thesis by (simp add: Start_not_paused)
  next
    case True
    with ns show ?thesis
      by (cases "page_objects page = []") (simp_all add: Start_empty Start_paused)
  qed
qed

lemma Start_bitmap_shape:
  "\<exists>b. progressive_render_bitmap
          (snd (StartRenderPageWithColorSchemeAndBackground page p flags cs bg t)) = Some b \<and>
        bmp_alpha b = FPDFPage_HasTransparency page \<and>
        bmp_width b = static_cast_int (FPDF_GetPageWidth page) \<and>
        bmp_height b = static_cast_int (FPDF_GetPageHeight page)"
  using Start_bitmap_cases [of page p flags cs bg t]
  by (auto simp: shape_paint_rest shape_paint_object prepared_target_shape)

lemma Start_prefix:
  assumes "state (render_session t) = NotStarted"
  shows "\<exists>t'. snd (StartRenderPageWithColorSchemeAndBackground page p flags cs bg t) = t' \<and>
           cursor (render_session t') \<le> length (page_objects page) \<and>
           progressive_render_bitmap t'
             = Some (foldl (\<lambda>b i. paint_object (page_config page flags cs) (page_objects page) i b)
                       (prepared_target page bg) [0..<cursor (render_session t')])"
proof (cases "Pause_NeedToPauseNow p")
  case False
  with assms show ?thesis by (simp add: Start_not_paused paint_rest_def)
next
  case True
  with assms show ?thesis
    by (cases "page_objects page = []") (simp_all add: Start_empty Start_paused Suc_le_eq)
qed

lemma override_start_history:
  "\<exists>b t'. snd (StartRenderPageWithColorSchemeAndBackground page pause flags color_scheme
                 background_color (new_fixture h)) = t' \<and>
      progressive_render_bitmap t' = Some b \<and>
      history b = Filled background_color # map Painted [0..<cursor (render_session t')]"
proof -
  have ns: "state (render_session (new_fixture h)) = NotStarted"
    by (simp add: new_fixture_def new_session_def)
  from Start_prefix [OF ns, of page pause flags color_scheme background_color]
  show ?thesis
    by (auto simp: history_prefix prepared_target_shape)
qed

lemma Finish_present:
  "FinishRenderPageWithForms d page handle
     \<lparr>progressive_render_bitmap = Some b, progressive_render_flags = f, form_handle = h,
      render_session = s\<rparr>
   = Some (Some (draw_forms handle b page 0 0 (static_cast_int (FPDF_GetPageWidth page))
                   (static_cast_int (FPDF_GetPageHeight page)) 0 f),
           \<lparr>progressive_render_bitmap = None, progressive_render_flags = f, form_handle = h,
            render_session = snd (FPDF_RenderPage_Close page s)\<rparr>)"
  by (simp add: FinishRenderPageWithForms_def FPDF_FFLDraw_def Let_def split: prod.splits)

subsection \<open>Complete flows\<close>



lemma paused_flow_plain:
  "RenderWithPause d page (new_fixture h)
   = Some (page_objects page \<noteq> [],
           Some (draw_forms None
             (paint_rest (page_config page 0 None) (page_objects page) 0
                (prepared_target page (if FPDFPage_HasTransparency page then 0x00000000 else 0xFFFFFFFF)))
             page 0 0 (static_cast_int (FPDF_GetPageWidth page))
             (static_cast_int (FPDF_GetPageHeight page)) 0 0),
           \<lparr>progressive_render_bitmap = None, progressive_render_flags = 0, form_handle = h,
            render_session = \<lparr>state = Closed, cursor = 0, config = None\<rparr>\<rparr>)"
proof (cases "page_objects page = []")
  case True
  then show ?thesis
    by (simp add: RenderWithPause_def StartRenderPage_def StartRenderPageWithFlags_eq
          Start_empty new_fixture_def new_session_def FinishRenderPage_def
          render_loop_done Finish_present Close_Done paint_rest_end)
next
  case False
  then have "0 < length (page_objects page)" by simp
  then have step: "paint_rest cfg (page_objects page) (Suc 0)
                     (paint_object cfg (page_objects page) 0 b)
                   = paint_rest cfg (page_objects page) 0 b" for cfg b
    by (simp add: paint_rest_step)
  from False have le: "Suc 0 \<le> length (page_objects page)"
    by (cases "page_objects page") simp_all
  from False show ?thesis
    by (simp add: RenderWithPause_def StartRenderPage_def StartRenderPageWithFlags_eq
          Start_paused new_fixture_def new_session_def FinishRenderPage_def
          render_loop_paused [OF _ le] step Finish_present Close_Done)
qed

lemma unpaused_flow:
  "RenderWithoutPause d page (new_fixture h)
   = Some (True,
           Some (draw_forms None
             (paint_rest (page_config page 0 None) (page_objects page) 0
                (prepared_target page (if FPDFPage_HasTransparency page then 0x00000000 else 0xFFFFFFFF)))
             page 0 0 (static_cast_int (FPDF_GetPageWidth page))
             (static_cast_int (FPDF_GetPageHeight page)) 0 0),
           \<lparr>progressive_render_bitmap = None, progressive_render_flags = 0, form_handle = h,
            render_session = \<lparr>state = Closed, cursor = 0, config = None\<rparr>\<rparr>)"
  by (simp add: RenderWithoutPause_def StartRenderPage_def StartRenderPageWithFlags_eq
        Start_not_paused new_fixture_def new_session_def FinishRenderPage_def
        Finish_present Close_Done)


lemma sample_run_paused:
  "map_option (\<lambda>r. (fst r, map_option pixels (fst (snd r)), map_option history (fst (snd r))))
     (RenderWithPause d sample_page (new_fixture None))
   = Some (True, Some [kRed, kBlue], Some [Filled 0xFFFFFFFF, Painted 0, Painted 1, Overlaid])"
  by (simp add: paused_flow_plain draw_forms_def history_painted paint_rest_def upt_rec
        paint_object_def pixels_prepared_target prepared_target_shape
        sample_page_def FPDFPage_HasTransparency_def FPDF_GetPageWidth_def FPDF_GetPageHeight_def
        static_cast_int_examples eval_nat_numeral)

subsection \<open>Sessions\<close>










subsection \<open>The target comes from the page\<close>

text \<open>
  Claim C10. Both start functions of the harness create the target from the page alone:
  the bitmap kept in the fixture has an alpha channel exactly when
  \<^verbatim>\<open>FPDFPage_HasTransparency(page)\<close> holds, and its width and height are the page's
  width and height with the fraction dropped, that is rounded towards zero: the floor of
  an extent that is not negative, the ceiling of a negative one. This is the value
  whenever it fits an \<^verbatim>\<open>int\<close>, as the extent of every page of a document does; the
  width and the height of the bitmap are within the range of \<^verbatim>\<open>int\<close> in every case.
  All of this holds from any fixture and for any pause controller, flags, colour scheme
  and background: none of them takes part in the choice.
\<close>

theorem target_shape_from_page:
  "(\<exists>b. progressive_render_bitmap (snd (StartRenderPageWithFlags page pause flags t)) = Some b \<and>
        bmp_alpha b = FPDFPage_HasTransparency page \<and>
        (- 2147483649 < FPDF_GetPageWidth page \<and> FPDF_GetPageWidth page < 2147483648 \<longrightarrow>
           bmp_width b = (if 0 \<le> FPDF_GetPageWidth page then \<lfloor>FPDF_GetPageWidth page\<rfloor>
                          else \<lceil>FPDF_GetPageWidth page\<rceil>)) \<and>
        (- 2147483649 < FPDF_GetPageHeight page \<and> FPDF_GetPageHeight page < 2147483648 \<longrightarrow>
           bmp_height b = (if 0 \<le> FPDF_GetPageHeight page then \<lfloor>FPDF_GetPageHeight page\<rfloor>
                           else \<lceil>FPDF_GetPageHeight page\<rceil>)) \<and>
        - 2147483648 \<le> bmp_width b \<and> bmp_width b \<le> 2147483647 \<and>
        - 2147483648 \<le> bmp_height b \<and> bmp_height b \<le> 2147483647) \<and>
   (\<exists>b. progressive_render_bitmap
          (snd (StartRenderPageWithColorSchemeAndBackground page pause flags color_scheme
                  background_color t)) = Some b \<and>
        bmp_alpha b = FPDFPage_HasTransparency page \<and>
        (- 2147483649 < FPDF_GetPageWidth page \<and> FPDF_GetPageWidth page < 2147483648 \<longrightarrow>
           bmp_width b = (if 0 \<le> FPDF_GetPageWidth page then \<lfloor>FPDF_GetPageWidth page\<rfloor>
                          else \<lceil>FPDF_GetPageWidth page\<rceil>)) \<and>
        (- 2147483649 < FPDF_GetPageHeight page \<and> FPDF_GetPageHeight page < 2147483648 \<longrightarrow>
           bmp_height b = (if 0 \<le> FPDF_GetPageHeight page then \<lfloor>FPDF_GetPageHeight page\<rfloor>
                           else \<lceil>FPDF_GetPageHeight page\<rceil>)) \<and>
        - 2147483648 \<le> bmp_width b \<and> bmp_width b \<le> 2147483647 \<and>
        - 2147483648 \<le> bmp_height b \<and> bmp_height b \<le> 2147483647)"
proof -
  have shape: "\<exists>b. progressive_render_bitmap
          (snd (StartRenderPageWithColorSchemeAndBackground page pause flags cs bg t)) = Some b \<and>
        bmp_alpha b = FPDFPage_HasTransparency page \<and>
        (- 2147483649 < FPDF_GetPageWidth page \<and> FPDF_GetPageWidth page < 2147483648 \<longrightarrow>
           bmp_width b = (if 0 \<le> FPDF_GetPageWidth page then \<lfloor>FPDF_GetPageWidth page\<rfloor>
                          else \<lceil>FPDF_GetPageWidth page\<rceil>)) \<and>
        (- 2147483649 < FPDF_GetPageHeight page \<and> FPDF_GetPageHeight page < 2147483648 \<longrightarrow>
           bmp_height b = (if 0 \<le> FPDF_GetPageHeight page then \<lfloor>FPDF_GetPageHeight page\<rfloor>
                           else \<lceil>FPDF_GetPageHeight page\<rceil>)) \<and>
        - 2147483648 \<le> bmp_width b \<and> bmp_width b \<le> 2147483647 \<and>
        - 2147483648 \<le> bmp_height b \<and> bmp_height b \<le> 2147483647" for cs bg
  proof -
    from Start_bitmap_shape [of page pause flags cs bg t]
    obtain b where b: "progressive_render_bitmap
          (snd (StartRenderPageWithColorSchemeAndBackground page pause flags cs bg t)) = Some b"
      and a: "bmp_alpha b = FPDFPage_HasTransparency page"
      and w: "bmp_width b = static_cast_int (FPDF_GetPageWidth page)"
      and h: "bmp_height b = static_cast_int (FPDF_GetPageHeight page)"
      by blast
    have tw: "- 2147483649 < FPDF_GetPageWidth page \<and> FPDF_GetPageWidth page < 2147483648 \<longrightarrow>
           bmp_width b = (if 0 \<le> FPDF_GetPageWidth page then \<lfloor>FPDF_GetPageWidth page\<rfloor>
                          else \<lceil>FPDF_GetPageWidth page\<rceil>)"
      unfolding w by (simp add: static_cast_int_truncates)
    have th: "- 2147483649 < FPDF_GetPageHeight page \<and> FPDF_GetPageHeight page < 2147483648 \<longrightarrow>
           bmp_height b = (if 0 \<le> FPDF_GetPageHeight page then \<lfloor>FPDF_GetPageHeight page\<rfloor>
                           else \<lceil>FPDF_GetPageHeight page\<rceil>)"
      unfolding h by (simp add: static_cast_int_truncates)
    have rw: "- 2147483648 \<le> bmp_width b \<and> bmp_width b \<le> 2147483647"
      unfolding w by (rule static_cast_int_in_range)
    have rh: "- 2147483648 \<le> bmp_height b \<and> bmp_height b \<le> 2147483647"
      unfolding h by (rule static_cast_int_in_range)
    from b a tw th rw rh show ?thesis by blast
  qed
  show ?thesis
    unfolding StartRenderPageWithFlags_eq
    by (intro conjI shape)
qed

text \<open>
  On the sample page, five halves wide and one high and without transparency, the
  bitmap is two wide and one high and has no alpha channel.
\<close>

theorem target_shape_from_page_witness:
  "(case progressive_render_bitmap
           (snd (StartRenderPageWithFlags sample_page (FakePause_new True) 0 (new_fixture None))) of
      None \<Rightarrow> False
    | Some b \<Rightarrow> bmp_width b = 2 \<and> bmp_height b = 1 \<and> \<not> bmp_alpha b) \<and>
   FPDF_GetPageWidth sample_page = 5 / 2 \<and> FPDF_GetPageHeight sample_page = 1 \<and>
   \<not> FPDFPage_HasTransparency sample_page"
proof -
  have page: "FPDF_GetPageWidth sample_page = 5 / 2" "FPDF_GetPageHeight sample_page = 1"
    "\<not> FPDFPage_HasTransparency sample_page"
    by (simp_all add: FPDF_GetPageWidth_def FPDF_GetPageHeight_def FPDFPage_HasTransparency_def
          sample_page_def)
  from target_shape_from_page
         [where page = sample_page and pause = "FakePause_new True" and flags = 0
            and t = "new_fixture None"]
  obtain b where
    "progressive_render_bitmap
       (snd (StartRenderPageWithFlags sample_page (FakePause_new True) 0 (new_fixture None)))
     = Some b"
    and "bmp_alpha b = FPDFPage_HasTransparency sample_page"
    and "- 2147483649 < FPDF_GetPageWidth sample_page \<and> FPDF_GetPageWidth sample_page < 2147483648
         \<longrightarrow> bmp_width b = (if 0 \<le> FPDF_GetPageWidth sample_page
                            then \<lfloor>FPDF_GetPageWidth sample_page\<rfloor>
                            else \<lceil>FPDF_GetPageWidth sample_page\<rceil>)"
    and "- 2147483649 < FPDF_GetPageHeight sample_page \<and> FPDF_GetPageHeight sample_page < 2147483648
         \<longrightarrow> bmp_height b = (if 0 \<le> FPDF_GetPageHeight sample_page
                             then \<lfloor>FPDF_GetPageHeight sample_page\<rfloor>
                             else \<lceil>FPDF_GetPageHeight sample_page\<rceil>)"
    by blast
  then show ?thesis unfolding page(1,2) using page(3) by simp
qed

subsection \<open>The background fill\<close>

text \<open>
  Claim C4. \<open>StartRenderPageWithFlags\<close>, the start without an explicit background, fills
  the target once, before anything is painted: the bitmap it leaves in the fixture is a
  buffer that held nothing but the fill colour, with the objects before the cursor painted
  on top, and its history is the fill followed by paint entries only. The fill colour is
  fully transparent (0x00000000) when the target has an alpha channel and opaque white
  (0xFFFFFFFF) when it has none. Neither Continue nor Finish fills again: in the bitmap a
  complete render hands back, in either build, the fill is the first entry and the only
  fill. The start with an explicit background fills once in the same place, with the
  colour it is given.
\<close>

theorem background_fill_once_at_start:
  "(\<exists>b b0 t'.
      snd (StartRenderPageWithFlags page pause flags (new_fixture h)) = t' \<and>
      progressive_render_bitmap t' = Some b \<and>
      b = foldl (\<lambda>b i. paint_object (page_config page flags None) (page_objects page) i b) b0
            [0..<cursor (render_session t')] \<and>
      history b0 = [Filled (if bmp_alpha b then 0x00000000 else 0xFFFFFFFF)] \<and>
      pixels b0 = replicate (nat (bmp_width b) * nat (bmp_height b))
                    (if bmp_alpha b then 0x00000000 else 0xFFFFFFFF) \<and>
      history b = Filled (if bmp_alpha b then 0x00000000 else 0xFFFFFFFF)
                    # map Painted [0..<cursor (render_session t')]) \<and>
   (\<exists>e b t'. RenderWithoutPause d page (new_fixture h) = Some (e, Some b, t') \<and>
      hd (history b) = Filled (if bmp_alpha b then 0x00000000 else 0xFFFFFFFF) \<and>
      (\<forall>c. Filled c \<notin> set (tl (history b)))) \<and>
   (\<exists>e b t'. RenderWithPause d page (new_fixture h) = Some (e, Some b, t') \<and>
      hd (history b) = Filled (if bmp_alpha b then 0x00000000 else 0xFFFFFFFF) \<and>
      (\<forall>c. Filled c \<notin> set (tl (history b)))) \<and>
   (\<exists>b t'. snd (StartRenderPageWithColorSchemeAndBackground page pause flags color_scheme
                 background_color (new_fixture h)) = t' \<and>
      progressive_render_bitmap t' = Some b \<and>
      history b = Filled background_color # map Painted [0..<cursor (render_session t')])"
proof (intro conjI)
  show "\<exists>b t'. snd (StartRenderPageWithColorSchemeAndBackground page pause flags color_scheme
                 background_color (new_fixture h)) = t' \<and>
      progressive_render_bitmap t' = Some b \<and>
      history b = Filled background_color # map Painted [0..<cursor (render_session t')]"
    by (rule override_start_history)
  let ?c = "if FPDFPage_HasTransparency page then 0x00000000 else 0xFFFFFFFF :: FPDF_DWORD"
  have ns: "state (render_session (new_fixture h)) = NotStarted"
    by (simp add: new_fixture_def new_session_def)
  from Start_prefix [OF ns, of page pause flags None ?c]
  obtain t' where t': "snd (StartRenderPageWithFlags page pause flags (new_fixture h)) = t'"
    and le: "cursor (render_session t') \<le> length (page_objects page)"
    and b: "progressive_render_bitmap t'
             = Some (foldl (\<lambda>b i. paint_object (page_config page flags None) (page_objects page) i b)
                       (prepared_target page ?c) [0..<cursor (render_session t')])"
    by (auto simp: StartRenderPageWithFlags_eq)
  show "\<exists>b b0 t'.
      snd (StartRenderPageWithFlags page pause flags (new_fixture h)) = t' \<and>
      progressive_render_bitmap t' = Some b \<and>
      b = foldl (\<lambda>b i. paint_object (page_config page flags None) (page_objects page) i b) b0
            [0..<cursor (render_session t')] \<and>
      history b0 = [Filled (if bmp_alpha b then 0x00000000 else 0xFFFFFFFF)] \<and>
      pixels b0 = replicate (nat (bmp_width b) * nat (bmp_height b))
                    (if bmp_alpha b then 0x00000000 else 0xFFFFFFFF) \<and>
      history b = Filled (if bmp_alpha b then 0x00000000 else 0xFFFFFFFF)
                    # map Painted [0..<cursor (render_session t')]"
    using t' b le
    by (intro exI [of _ "foldl (\<lambda>b i. paint_object (page_config page flags None) (page_objects page) i b)
                       (prepared_target page ?c) [0..<cursor (render_session t')]"]
          exI [of _ "prepared_target page ?c"] exI [of _ t'])
       (simp add: history_prefix shape_prefix prepared_target_shape pixels_prepared_target)
  show "\<exists>e b t'. RenderWithoutPause d page (new_fixture h) = Some (e, Some b, t') \<and>
      hd (history b) = Filled (if bmp_alpha b then 0x00000000 else 0xFFFFFFFF) \<and>
      (\<forall>c. Filled c \<notin> set (tl (history b)))"
    by (auto simp: unpaused_flow history_draw_forms history_painted draw_forms_def
          shape_paint_rest prepared_target_shape)
  show "\<exists>e b t'. RenderWithPause d page (new_fixture h) = Some (e, Some b, t') \<and>
      hd (history b) = Filled (if bmp_alpha b then 0x00000000 else 0xFFFFFFFF) \<and>
      (\<forall>c. Filled c \<notin> set (tl (history b)))"
    by (auto simp: paused_flow_plain history_draw_forms history_painted draw_forms_def
          shape_paint_rest prepared_target_shape)
qed

subsection \<open>What Start returns\<close>



subsection \<open>Pausing does not change the picture\<close>

text \<open>
  Claim C1. For every page, and in a build with or without the debug checks, the test
  that renders without pausing and the test that pauses at every batch boundary and
  calls Continue until the render is done both return a bitmap, and it is the same
  bitmap: the same pixels, drawn by the same operations.
\<close>

theorem pause_invariance:
  "\<exists>e b t1 t2.
     RenderWithoutPause d page (new_fixture h) = Some (True, Some b, t1) \<and>
     RenderWithPause d page (new_fixture h) = Some (e, Some b, t2)"
proof -
  let ?b = "draw_forms None
              (paint_rest (page_config page 0 None) (page_objects page) 0
                 (prepared_target page
                    (if FPDFPage_HasTransparency page then 0x00000000 else 0xFFFFFFFF)))
              page 0 0 (static_cast_int (FPDF_GetPageWidth page))
              (static_cast_int (FPDF_GetPageHeight page)) 0 0"
  let ?t = "\<lparr>progressive_render_bitmap = None, progressive_render_flags = 0, form_handle = h,
             render_session = \<lparr>state = Closed, cursor = 0, config = None\<rparr>\<rparr>"
  have "RenderWithoutPause d page (new_fixture h) = Some (True, Some ?b, ?t)"
    by (rule unpaused_flow)
  moreover have "RenderWithPause d page (new_fixture h)
                   = Some (page_objects page \<noteq> [], Some ?b, ?t)"
    by (rule paused_flow_plain)
  ultimately show ?thesis by blast
qed

subsection \<open>The order of the operations on the buffer\<close>




end
